theory Spec2Isabelle
  imports Complex_Main
begin

section \<open>SplitEZ: expenses, settlements, balances and group membership\<close>

text \<open>
  A shallow embedding of the expense-splitting core of SplitEZ: \<^verbatim>\<open>addExpense\<close> and
  \<^verbatim>\<open>loadGroupMembers\<close> (expenses.js), \<^verbatim>\<open>calculateSettlements\<close>, \<^verbatim>\<open>awardXP\<close> and
  \<^verbatim>\<open>checkBadges\<close> (analytics.js), \<^verbatim>\<open>loadDashboardStats\<close> and both \<^verbatim>\<open>settlePayment\<close>
  functions (app.js, expense-details.js), \<^verbatim>\<open>initiatePayment\<close> and \<^verbatim>\<open>handlePaymentSuccess\<close>
  (payments.js), \<^verbatim>\<open>createGroup\<close> and \<^verbatim>\<open>deleteGroup\<close> (groups.js).

  Modelling decisions, valid for the whole development:
  \<^item> The Firestore database is an explicit state \<open>db\<close>: one association list per collection,
    in insertion order, and a counter from which \<^verbatim>\<open>addDoc\<close> draws fresh document ids.
    The ids of groups, expenses and settlements are natural numbers; a user id is the
    string that the identity service assigned.
    Queries return the matching documents in store order. The store does not fail on
    its own: apart from the failures the code itself decides (early returns, missing
    documents, a call of a function the module never imported), a rejected promise of the
    backend is modelled in \<^verbatim>\<open>deleteGroup\<close> only, where the deletions that the backend
    rejects are an input.
  \<^item> JavaScript numbers that hold money are exact rationals (\<open>rat\<close>): no rounding and no
    \<^verbatim>\<open>NaN\<close>. XP points and levels are \<open>int\<close>.
  \<^item> A JavaScript object used as a dictionary is an association list with distinct keys in
    insertion order (\<open>obj_set\<close> overwrites in place or appends), which is the order of
    \<^verbatim>\<open>Object.entries\<close> for keys that are not array indices.
  \<^item> A JavaScript \<^verbatim>\<open>Set\<close> is a duplicate-free list in insertion order (\<open>set_add\<close>).
  \<^item> \<^verbatim>\<open>new Date().toISOString()\<close> is an input \<open>now\<close> of the operation; the logged-in user
    (\<^verbatim>\<open>currentUser\<close>) and the answers of \<^verbatim>\<open>confirm\<close> dialogs are inputs as well. Alerts,
    page reloads and DOM rendering are not modelled; an alert that ends an operation early
    is the operation's error value.
\<close>

subsection \<open>Data model\<close>

type_synonym uid = string
type_synonym doc_id = nat
type_synonym timestamp = string

datatype status = Pending | Paid

datatype split_type = Equal | Custom

datatype error =
    NoMembersSelected
  | SplitMismatch rat rat
  | NotAuthenticated
  | NotFound
  | Forbidden
  | Cancelled
  | PersistenceError

record user =
  u_name :: string
  u_email :: string
  u_xpPoints :: int
  u_level :: int
  u_badges :: "string list"

record group =
  g_name :: string
  g_description :: string
  g_members :: "uid list"
  g_memberEmails :: "string list"
  g_pendingMemberEmails :: "string list"
  g_createdBy :: "uid option"
  g_createdAt :: timestamp

record expense =
  e_groupId :: doc_id
  e_groupName :: string
  e_description :: string
  e_amount :: rat
  e_date :: string
  e_paidBy :: uid
  e_splitType :: split_type
  e_splitMembers :: "uid list"
  e_splitAmounts :: "(uid \<times> rat) list"
  e_createdAt :: timestamp
  e_settlementStatus :: "(uid \<times> status) list option"

record settlement =
  s_groupId :: doc_id
  s_expenseId :: "doc_id option"
  s_userId :: uid
  s_owedTo :: uid
  s_amount :: rat
  s_description :: string
  s_status :: status
  s_createdAt :: timestamp
  s_paidAt :: "timestamp option"
  s_paymentId :: "string option"

record db =
  users :: "(uid \<times> user) list"
  groups :: "(doc_id \<times> group) list"
  expenses :: "(doc_id \<times> expense) list"
  settlements :: "(doc_id \<times> settlement) list"
  next_id :: nat

subsection \<open>Store and JavaScript primitives\<close>

text \<open>\<^verbatim>\<open>getDoc\<close>: the document stored under a key, if any.\<close>

definition getDoc :: "('k \<times> 'a) list \<Rightarrow> 'k \<Rightarrow> 'a option" where
  "getDoc c k = map_of c k"

text \<open>\<^verbatim>\<open>updateDoc\<close> on an existing document: the given fields are overwritten.\<close>

definition updateDoc :: "('k \<times> 'a) list \<Rightarrow> 'k \<Rightarrow> ('a \<Rightarrow> 'a) \<Rightarrow> ('k \<times> 'a) list" where
  "updateDoc c k f = map (\<lambda>(j, d). if j = k then (j, f d) else (j, d)) c"

text \<open>\<^verbatim>\<open>deleteDoc\<close>: deleting a missing document is not an error.\<close>

definition deleteDoc :: "('k \<times> 'a) list \<Rightarrow> 'k \<Rightarrow> ('k \<times> 'a) list" where
  "deleteDoc c k = filter (\<lambda>(j, d). j \<noteq> k) c"

text \<open>\<^verbatim>\<open>obj[k] = v\<close> on a JavaScript object.\<close>

fun obj_set :: "('k \<times> 'v) list \<Rightarrow> 'k \<Rightarrow> 'v \<Rightarrow> ('k \<times> 'v) list" where
  "obj_set [] k v = [(k, v)]"
| "obj_set ((a, b) # ps) k v = (if a = k then (a, v) # ps else (a, b) # obj_set ps k v)"

text \<open>\<^verbatim>\<open>set.add(x)\<close> on a JavaScript \<^verbatim>\<open>Set\<close>, and \<^verbatim>\<open>new Set(xs)\<close>.\<close>

definition set_add :: "'a list \<Rightarrow> 'a \<Rightarrow> 'a list" where
  "set_add xs x = (if x \<in> set xs then xs else xs @ [x])"

definition new_Set :: "'a list \<Rightarrow> 'a list" where
  "new_Set xs = foldl set_add [] xs"

text \<open>\<^verbatim>\<open>x || d\<close> on strings: the empty string is falsy.\<close>

definition or_default :: "string \<Rightarrow> string \<Rightarrow> string" where
  "or_default x d = (if x = [] then d else x)"

subsection \<open>Settlement ledger: \<^verbatim>\<open>calculateSettlements\<close>\<close>

definition addDoc_settlements :: "settlement \<Rightarrow> db \<Rightarrow> db" where
  "addDoc_settlements d s =
     s\<lparr>settlements := settlements s @ [(next_id s, d)], next_id := Suc (next_id s)\<rparr>"

text \<open>The record written for a member who is not the payer (\<^verbatim>\<open>settlementData\<close>).\<close>

definition settlementData ::
  "doc_id \<Rightarrow> doc_id option \<Rightarrow> expense \<Rightarrow> timestamp \<Rightarrow> uid \<Rightarrow> rat \<Rightarrow> settlement" where
  "settlementData groupId eid ex now memberId amount =
     \<lparr>s_groupId = groupId, s_expenseId = eid, s_userId = memberId, s_owedTo = e_paidBy ex,
      s_amount = amount, s_description = or_default (e_description ex) ''Expense'',
      s_status = Pending, s_createdAt = now, s_paidAt = None, s_paymentId = None\<rparr>"

text \<open>The sum of the shares of all keys other than the payer (\<^verbatim>\<open>totalOwed\<close>).\<close>

definition totalOwed :: "expense \<Rightarrow> rat" where
  "totalOwed ex =
     foldl (\<lambda>sum amount. sum + amount) 0
       (map snd (filter (\<lambda>(k, a). k \<noteq> e_paidBy ex) (e_splitAmounts ex)))"

text \<open>The record written for the payer, with the negated total (\<^verbatim>\<open>payerSettlement\<close>).\<close>

definition payerSettlement :: "doc_id \<Rightarrow> doc_id option \<Rightarrow> expense \<Rightarrow> timestamp \<Rightarrow> settlement" where
  "payerSettlement groupId eid ex now =
     \<lparr>s_groupId = groupId, s_expenseId = eid, s_userId = e_paidBy ex, s_owedTo = e_paidBy ex,
      s_amount = - totalOwed ex, s_description = or_default (e_description ex) ''Expense'',
      s_status = Pending, s_createdAt = now, s_paidAt = None, s_paymentId = None\<rparr>"

text \<open>
  \<^verbatim>\<open>calculateSettlements(groupId, expense)\<close>; \<open>eid\<close> is \<^verbatim>\<open>expense.id\<close>, \<open>None\<close> when the
  expense object carries no id (the code then stores the empty string).
\<close>

definition calculateSettlements ::
  "doc_id \<Rightarrow> doc_id option \<Rightarrow> expense \<Rightarrow> timestamp \<Rightarrow> db \<Rightarrow> db" where
  "calculateSettlements groupId eid ex now s =
     (let paidBy = e_paidBy ex;
          s1 = fold (\<lambda>(memberId, amount) st.
                       if memberId = paidBy then st
                       else addDoc_settlements (settlementData groupId eid ex now memberId amount) st)
                    (e_splitAmounts ex) s
      in if totalOwed ex > 0
         then addDoc_settlements (payerSettlement groupId eid ex now) s1
         else s1)"

subsection \<open>Gamification side effects: \<^verbatim>\<open>awardXP\<close> and \<^verbatim>\<open>checkBadges\<close>\<close>

text \<open>The badge table of \<^verbatim>\<open>checkBadges\<close>: each badge id with its condition, evaluated.\<close>

definition badgeDefinitions :: "uid \<Rightarrow> int \<Rightarrow> int \<Rightarrow> db \<Rightarrow> (string \<times> bool) list" where
  "badgeDefinitions userId xp level s =
     [(''first_expense'', xp \<ge> 10),
      (''expense_master'', xp \<ge> 100),
      (''level_5'', level \<ge> 5),
      (''level_10'', level \<ge> 10),
      (''settler'',
         length (filter (\<lambda>(i, d). s_userId d = userId \<and> s_status d = Paid) (settlements s)) \<ge> 5),
      (''group_creator'',
         length (filter (\<lambda>(i, g). g_createdBy g = Some userId) (groups s)) \<ge> 3)]"

definition checkBadges :: "uid \<Rightarrow> int \<Rightarrow> int \<Rightarrow> db \<Rightarrow> db" where
  "checkBadges userId xp level s =
     (case getDoc (users s) userId of
        None \<Rightarrow> s
      | Some userData \<Rightarrow>
          (let currentBadges = u_badges userData;
               newBadges = map fst (filter (\<lambda>(b, earned). b \<notin> set currentBadges \<and> earned)
                                           (badgeDefinitions userId xp level s))
           in if length newBadges > 0
              then s\<lparr>users := updateDoc (users s) userId
                                  (\<lambda>u. u\<lparr>u_badges := currentBadges @ newBadges\<rparr>)\<rparr>
              else s))"

definition awardXP :: "uid \<Rightarrow> int \<Rightarrow> db \<Rightarrow> db" where
  "awardXP userId points s =
     (case getDoc (users s) userId of
        None \<Rightarrow> s
      | Some userData \<Rightarrow>
          (let currentXP = u_xpPoints userData;
               newXP = currentXP + points;
               newLevel = newXP div 100 + 1;
               s1 = s\<lparr>users := updateDoc (users s) userId
                                  (\<lambda>u. u\<lparr>u_xpPoints := newXP, u_level := newLevel\<rparr>)\<rparr>
           in checkBadges userId newXP newLevel s1))"

subsection \<open>Split calculator and \<^verbatim>\<open>addExpense\<close>\<close>

text \<open>
  The fields of the add-expense form. \<open>f_customInputs\<close> holds the numbers typed into the
  \<^verbatim>\<open>custom_<memberId>\<close> inputs; a blank or unparsable input has no entry and counts as 0
  (\<^verbatim>\<open>parseFloat(...) || 0\<close>).
\<close>

record expense_form =
  f_expenseGroup :: doc_id
  f_expenseDescription :: string
  f_expenseAmount :: rat
  f_expenseDate :: string
  f_expensePaidBy :: uid
  f_splitType :: split_type
  f_selectedMembers :: "uid list"
  f_customInputs :: "(uid \<times> rat) list"

text \<open>The equal branch: every selected member gets \<^verbatim>\<open>amount / selectedMembers.length\<close>.\<close>

definition equal_split :: "rat \<Rightarrow> uid list \<Rightarrow> (uid \<times> rat) list" where
  "equal_split amount selectedMembers =
     (let perPerson = amount / of_nat (length selectedMembers)
      in fold (\<lambda>memberId splitAmounts. obj_set splitAmounts memberId perPerson)
              selectedMembers [])"

text \<open>The custom branch: the share mapping and \<^verbatim>\<open>totalCustom\<close>.\<close>

definition custom_split :: "(uid \<times> rat) list \<Rightarrow> uid list \<Rightarrow> (uid \<times> rat) list \<times> rat" where
  "custom_split customInputs selectedMembers =
     fold (\<lambda>memberId (splitAmounts, totalCustom).
             (let customAmount = (case map_of customInputs memberId of None \<Rightarrow> 0 | Some v \<Rightarrow> v)
              in (obj_set splitAmounts memberId customAmount, totalCustom + customAmount)))
          selectedMembers ([], 0)"

definition addDoc_expenses :: "expense \<Rightarrow> db \<Rightarrow> db" where
  "addDoc_expenses d s =
     s\<lparr>expenses := expenses s @ [(next_id s, d)], next_id := Suc (next_id s)\<rparr>"

text \<open>
  \<^verbatim>\<open>addExpense()\<close>. The result is the error that ended the operation, or the id of the new
  expense document, together with the database afterwards.
\<close>

definition addExpense :: "expense_form \<Rightarrow> timestamp \<Rightarrow> db \<Rightarrow> (error + doc_id) \<times> db" where
  "addExpense f now s =
     (let groupId = f_expenseGroup f;
          amount = f_expenseAmount f;
          paidBy = f_expensePaidBy f;
          splitType = f_splitType f;
          selectedMembers = f_selectedMembers f
      in if length selectedMembers = 0 then (Inl NoMembersSelected, s)
         else
           (case (if splitType = Equal then Inr (equal_split amount selectedMembers)
                  else (case custom_split (f_customInputs f) selectedMembers of
                          (splitAmounts, totalCustom) \<Rightarrow>
                            if \<bar>totalCustom - amount\<bar> > 1 / 100
                            then Inl (SplitMismatch totalCustom amount)
                            else Inr splitAmounts)) of
              Inl e \<Rightarrow> (Inl e, s)
            | Inr splitAmounts \<Rightarrow>
                (let groupName = (case getDoc (groups s) groupId of
                                    Some g \<Rightarrow> g_name g
                                  | None \<Rightarrow> ''Unknown Group'');
                     expenseData =
                       \<lparr>e_groupId = groupId, e_groupName = groupName,
                        e_description = f_expenseDescription f, e_amount = amount,
                        e_date = f_expenseDate f, e_paidBy = paidBy, e_splitType = splitType,
                        e_splitMembers = selectedMembers, e_splitAmounts = splitAmounts,
                        e_createdAt = now, e_settlementStatus = None\<rparr>;
                     expenseRef = next_id s;
                     s1 = addDoc_expenses expenseData s;
                     s2 = calculateSettlements groupId (Some expenseRef) expenseData now s1;
                     s3 = awardXP paidBy 10 s2
                 in (Inr expenseRef, s3))))"

subsection \<open>Balance aggregator: \<^verbatim>\<open>loadDashboardStats\<close>\<close>



subsection \<open>Marking debts paid\<close>

text \<open>
  \<^verbatim>\<open>settlePayment(expenseId, amount)\<close> of the expense-details page; \<open>amount\<close> only appears in
  the success message and is left out.
\<close>

definition settlePayment :: "uid option \<Rightarrow> doc_id \<Rightarrow> db \<Rightarrow> (error + unit) \<times> db" where
  "settlePayment currentUser expenseId s =
     (case currentUser of
        None \<Rightarrow> (Inl NotAuthenticated, s)
      | Some cu \<Rightarrow>
          (case getDoc (expenses s) expenseId of
             None \<Rightarrow> (Inl NotFound, s)
           | Some expense \<Rightarrow>
               (let payee = e_paidBy expense
                in if cu = payee then (Inl Forbidden, s)
                   else
                     (let old = (case e_settlementStatus expense of None \<Rightarrow> [] | Some m \<Rightarrow> m);
                          updateData = (\<lambda>d. d\<lparr>e_settlementStatus := Some (obj_set old cu Paid)\<rparr>)
                      in (Inr (), s\<lparr>expenses := updateDoc (expenses s) expenseId updateData\<rparr>)))))"

text \<open>
  \<^verbatim>\<open>handlePaymentSuccess(response, settlementId)\<close>: \<open>paymentId\<close> is
  \<^verbatim>\<open>response.razorpay_payment_id\<close>, \<open>currentUser\<close> is what \<^verbatim>\<open>requireAuth()\<close> returns.
  \<^verbatim>\<open>updateDoc\<close> rejects when the settlement document does not exist.
\<close>

definition handlePaymentSuccess ::
  "uid option \<Rightarrow> string \<Rightarrow> doc_id \<Rightarrow> timestamp \<Rightarrow> db \<Rightarrow> (error + unit) \<times> db" where
  "handlePaymentSuccess currentUser paymentId settlementId now s =
     (case getDoc (settlements s) settlementId of
        None \<Rightarrow> (Inl NotFound, s)
      | Some _ \<Rightarrow>
          (let s1 = s\<lparr>settlements := updateDoc (settlements s) settlementId
                         (\<lambda>d. d\<lparr>s_status := Paid, s_paidAt := Some now,
                                s_paymentId := Some paymentId\<rparr>)\<rparr>;
               s2 = (case currentUser of None \<Rightarrow> s1 | Some u \<Rightarrow> awardXP u 20 s1)
           in (Inr (), s2)))"

text \<open>\<^verbatim>\<open>initiatePayment\<close>: the demo checkout is a \<^verbatim>\<open>confirm\<close> dialog.\<close>

definition initiatePayment ::
  "bool \<Rightarrow> uid option \<Rightarrow> string \<Rightarrow> doc_id \<Rightarrow> timestamp \<Rightarrow> db \<Rightarrow> (error + unit) \<times> db" where
  "initiatePayment confirmed currentUser paymentId settlementId now s =
     (if confirmed then handlePaymentSuccess currentUser paymentId settlementId now s
      else (Inl Cancelled, s))"

text \<open>\<^verbatim>\<open>window.settlePayment(settlementId, amount)\<close> of the dashboard.\<close>

definition settlePayment_dashboard ::
  "bool \<Rightarrow> uid \<Rightarrow> string \<Rightarrow> doc_id \<Rightarrow> timestamp \<Rightarrow> db \<Rightarrow> (error + unit) \<times> db" where
  "settlePayment_dashboard confirmed currentUser paymentId settlementId now s =
     (case getDoc (settlements s) settlementId of
        None \<Rightarrow> (Inl NotFound, s)
      | Some settlement \<Rightarrow>
          initiatePayment confirmed (Some currentUser) paymentId settlementId now s)"

subsection \<open>Strings: \<^verbatim>\<open>toLowerCase\<close>, \<^verbatim>\<open>trim\<close>, \<^verbatim>\<open>split\<close>\<close>

text \<open>
  A string is the list of its UTF-8 bytes. \<^verbatim>\<open>toLowerCase\<close> lowers the letters \<open>A\<close> to
  \<open>Z\<close> and leaves every other byte as it is, so a letter outside ASCII is not lowered as
  JavaScript would.
\<close>

definition lower_char :: "char \<Rightarrow> char" where
  "lower_char c =
     (case map_of (zip ''ABCDEFGHIJKLMNOPQRSTUVWXYZ'' ''abcdefghijklmnopqrstuvwxyz'') c of
        None \<Rightarrow> c
      | Some l \<Rightarrow> l)"

definition toLowerCase :: "string \<Rightarrow> string" where
  "toLowerCase x = map lower_char x"

text \<open>
  White space as \<^verbatim>\<open>trim\<close> sees it (the WhiteSpace and LineTerminator code points of
  ECMAScript), in UTF-8: one byte for tab, line feed, vertical tab, form feed, carriage
  return and space; two bytes for U+00A0; three bytes for U+1680, U+2000 to U+200A,
  U+2028, U+2029, U+202F, U+205F, U+3000 and U+FEFF.
\<close>

definition ws1 :: "char \<Rightarrow> bool" where
  "ws1 a = (a \<in> set [CHR 0x09, CHR 0x0A, CHR 0x0B, CHR 0x0C, CHR 0x0D, CHR 0x20])"

definition ws2 :: "char \<Rightarrow> char \<Rightarrow> bool" where
  "ws2 a b = (a = CHR 0xC2 \<and> b = CHR 0xA0)"

definition ws3 :: "char \<Rightarrow> char \<Rightarrow> char \<Rightarrow> bool" where
  "ws3 a b c =
     ((a, b, c) \<in> set
        [(CHR 0xE1, CHR 0x9A, CHR 0x80),
         (CHR 0xE2, CHR 0x80, CHR 0x80), (CHR 0xE2, CHR 0x80, CHR 0x81),
         (CHR 0xE2, CHR 0x80, CHR 0x82), (CHR 0xE2, CHR 0x80, CHR 0x83),
         (CHR 0xE2, CHR 0x80, CHR 0x84), (CHR 0xE2, CHR 0x80, CHR 0x85),
         (CHR 0xE2, CHR 0x80, CHR 0x86), (CHR 0xE2, CHR 0x80, CHR 0x87),
         (CHR 0xE2, CHR 0x80, CHR 0x88), (CHR 0xE2, CHR 0x80, CHR 0x89),
         (CHR 0xE2, CHR 0x80, CHR 0x8A),
         (CHR 0xE2, CHR 0x80, CHR 0xA8), (CHR 0xE2, CHR 0x80, CHR 0xA9),
         (CHR 0xE2, CHR 0x80, CHR 0xAF), (CHR 0xE2, CHR 0x81, CHR 0x9F),
         (CHR 0xE3, CHR 0x80, CHR 0x80), (CHR 0xEF, CHR 0xBB, CHR 0xBF)])"

text \<open>\<^verbatim>\<open>trimStart\<close>: leading white space is dropped, one code point at a time.\<close>

fun trimStart :: "string \<Rightarrow> string" where
  "trimStart (a # b # c # xs) =
     (if ws1 a then trimStart (b # c # xs)
      else if ws2 a b then trimStart (c # xs)
      else if ws3 a b c then trimStart xs
      else a # b # c # xs)"
| "trimStart (a # b # []) =
     (if ws1 a then trimStart (b # [])
      else if ws2 a b then []
      else a # b # [])"
| "trimStart (a # []) = (if ws1 a then [] else a # [])"
| "trimStart [] = []"

text \<open>
  \<^verbatim>\<open>trimEnd\<close> on the reversed string: the bytes of a trailing code point come last byte
  first.
\<close>

fun trimEnd_rev :: "string \<Rightarrow> string" where
  "trimEnd_rev (c # b # a # xs) =
     (if ws1 c then trimEnd_rev (b # a # xs)
      else if ws2 b c then trimEnd_rev (a # xs)
      else if ws3 a b c then trimEnd_rev xs
      else c # b # a # xs)"
| "trimEnd_rev (c # b # []) =
     (if ws1 c then trimEnd_rev (b # [])
      else if ws2 b c then []
      else c # b # [])"
| "trimEnd_rev (c # []) = (if ws1 c then [] else c # [])"
| "trimEnd_rev [] = []"

definition trim :: "string \<Rightarrow> string" where
  "trim x = rev (trimEnd_rev (rev (trimStart x)))"

text \<open>
  \<^verbatim>\<open>x.split(c)\<close> for a one-character separator; the empty string splits into one empty
  string.
\<close>

fun split_on :: "char \<Rightarrow> string \<Rightarrow> string list" where
  "split_on c [] = [Nil]"
| "split_on c (x # xs) =
     (if x = c then [] # split_on c xs
      else (case split_on c xs of
              [] \<Rightarrow> [x # Nil]
            | w # ws \<Rightarrow> (x # w) # ws))"

subsection \<open>Membership resolver: \<^verbatim>\<open>loadGroupMembers\<close>\<close>

text \<open>The query \<^verbatim>\<open>where('email', '==', e)\<close> on the users collection: the matching ids.\<close>

definition users_by_email :: "db \<Rightarrow> string \<Rightarrow> uid list" where
  "users_by_email s e = map fst (filter (\<lambda>(i, u). u_email u = e) (users s))"

text \<open>Body of the first loop: one known member email, lower case first, raw casing second.\<close>

definition resolve_member_email :: "db \<Rightarrow> uid list \<Rightarrow> string \<Rightarrow> uid list" where
  "resolve_member_email s memberIds email =
     (let emailLc = toLowerCase email;
          usersByEmailLc = users_by_email s emailLc;
          ids1 = foldl set_add memberIds usersByEmailLc;
          found = (usersByEmailLc \<noteq> [])
      in if \<not> found \<and> email \<noteq> emailLc
         then foldl set_add ids1 (users_by_email s email)
         else ids1)"

text \<open>
  Body of the second loop: one pending email. The accumulator is
  \<open>(memberIds, stillPending, newlyResolvedEmails)\<close>.
\<close>

definition resolve_pending_email ::
  "db \<Rightarrow> uid list \<times> string list \<times> string list \<Rightarrow> string \<Rightarrow> uid list \<times> string list \<times> string list"
  where
  "resolve_pending_email s acc pEmail =
     (case acc of (memberIds, stillPending, newlyResolvedEmails) \<Rightarrow>
        (let email = trim pEmail
         in if email = [] then acc
            else
              (let lc = toLowerCase email;
                   s1 = users_by_email s lc;
                   ids1 = foldl set_add memberIds s1;
                   resolved1 = (s1 \<noteq> []);
                   s2 = (if \<not> resolved1 \<and> lc \<noteq> email then users_by_email s email else []);
                   ids2 = foldl set_add ids1 s2;
                   resolved = (if s2 \<noteq> [] then True else resolved1)
               in if resolved then (ids2, stillPending, newlyResolvedEmails @ [email])
                  else (ids2, stillPending @ [email], newlyResolvedEmails))))"

text \<open>
  \<^verbatim>\<open>updateDoc\<close> as the module expenses.js sees it. The module imports \<^verbatim>\<open>collection\<close>,
  \<^verbatim>\<open>addDoc\<close>, \<^verbatim>\<open>getDocs\<close>, \<^verbatim>\<open>query\<close>, \<^verbatim>\<open>where\<close>, \<^verbatim>\<open>orderBy\<close>, \<^verbatim>\<open>doc\<close> and \<^verbatim>\<open>getDoc\<close>
  from the Firestore library, and not \<^verbatim>\<open>updateDoc\<close>: the name is unbound there, and
  calling it raises a ReferenceError whatever the arguments are.
\<close>

datatype js_exception = ReferenceError

definition updateDoc_unbound ::
  "('k \<times> 'a) list \<Rightarrow> 'k \<Rightarrow> ('a \<Rightarrow> 'a) \<Rightarrow> js_exception + ('k \<times> 'a) list" where
  "updateDoc_unbound c k f = Inl ReferenceError"

text \<open>
  The membership part of \<^verbatim>\<open>loadGroupMembers(groupId)\<close>, up to the promotion write; what
  follows in the source fills the form from \<open>memberIds\<close>. The promotion write calls the
  unbound \<^verbatim>\<open>updateDoc\<close>; the \<^verbatim>\<open>try\<close> around it catches the exception and logs it. The
  result says whether the group document was written, gives the member ids computed in
  memory, and the database afterwards.
\<close>

definition loadGroupMembers :: "doc_id \<Rightarrow> db \<Rightarrow> (bool \<times> uid list) \<times> db" where
  "loadGroupMembers groupId s =
     (case getDoc (groups s) groupId of
        None \<Rightarrow> ((False, []), s)
      | Some grp \<Rightarrow>
          (let memberIds0 = new_Set (g_members grp);
               memberEmails = g_memberEmails grp;
               pendingEmails = g_pendingMemberEmails grp;
               memberIds1 = foldl (resolve_member_email s) memberIds0 memberEmails
           in case foldl (resolve_pending_email s) (memberIds1, [], []) pendingEmails of
                (memberIds, stillPending, newlyResolvedEmails) \<Rightarrow>
                  if length newlyResolvedEmails > 0
                  then
                    (let updatedPending =
                           filter (\<lambda>e. e \<notin> set newlyResolvedEmails) pendingEmails;
                         normalizedAdditions = map toLowerCase newlyResolvedEmails;
                         updatedMemberEmails = new_Set (memberEmails @ normalizedAdditions)
                     in case updateDoc_unbound (groups s) groupId
                               (\<lambda>g. g\<lparr>g_members := memberIds,
                                      g_memberEmails := updatedMemberEmails,
                                      g_pendingMemberEmails := updatedPending\<rparr>) of
                          Inl e \<Rightarrow> ((False, memberIds), s)
                        | Inr written \<Rightarrow> ((True, memberIds), s\<lparr>groups := written\<rparr>))
                  else ((False, memberIds), s)))"

subsection \<open>Groups: \<^verbatim>\<open>createGroup\<close> and \<^verbatim>\<open>deleteGroup\<close>\<close>

text \<open>
  The \<^verbatim>\<open>forEach\<close> of \<^verbatim>\<open>createGroup\<close> over a query result: an id not yet in \<open>memberIds\<close>
  is pushed and becomes \<open>foundUid\<close>.
\<close>

definition push_found :: "uid list \<times> uid option \<Rightarrow> uid \<Rightarrow> uid list \<times> uid option" where
  "push_found acc u =
     (case acc of (memberIds, foundUid) \<Rightarrow>
        if u \<notin> set memberIds then (memberIds @ [u], Some u) else (memberIds, foundUid))"

text \<open>Body of the lookup loop; the accumulator is \<open>(memberIds, pendingMemberEmails)\<close>.\<close>

definition createGroup_lookup ::
  "db \<Rightarrow> uid list \<times> string list \<Rightarrow> string \<Rightarrow> uid list \<times> string list" where
  "createGroup_lookup s acc rawEmail =
     (case acc of (memberIds, pendingMemberEmails) \<Rightarrow>
        (let lcEmail = toLowerCase rawEmail
         in case foldl push_found (memberIds, None) (users_by_email s lcEmail) of
              (ids1, found1) \<Rightarrow>
                (case (if found1 = None \<and> rawEmail \<noteq> lcEmail
                       then foldl push_found (ids1, found1) (users_by_email s rawEmail)
                       else (ids1, found1)) of
                   (ids2, foundUid) \<Rightarrow>
                     if foundUid = None then (ids2, pendingMemberEmails @ [rawEmail])
                     else (ids2, pendingMemberEmails))))"

definition addDoc_groups :: "group \<Rightarrow> db \<Rightarrow> db" where
  "addDoc_groups d s =
     s\<lparr>groups := groups s @ [(next_id s, d)], next_id := Suc (next_id s)\<rparr>"

text \<open>
  \<^verbatim>\<open>createGroup()\<close> for the logged-in user, with the three form fields as arguments. The
  result is the id of the new group document and the database afterwards.
\<close>

definition createGroup ::
  "uid \<Rightarrow> string \<Rightarrow> string \<Rightarrow> string \<Rightarrow> timestamp \<Rightarrow> db \<Rightarrow> doc_id \<times> db" where
  "createGroup currentUser name description membersInput now s =
     (let rawMemberEmails = filter (\<lambda>email. email \<noteq> []) (map trim (split_on CHR '','' membersInput));
          memberEmails = map toLowerCase rawMemberEmails
      in case foldl (createGroup_lookup s) ([currentUser], []) rawMemberEmails of
           (memberIds, pendingMemberEmails) \<Rightarrow>
             (let groupData =
                    \<lparr>g_name = name, g_description = description, g_members = memberIds,
                     g_memberEmails = memberEmails,
                     g_pendingMemberEmails = pendingMemberEmails,
                     g_createdBy = Some currentUser, g_createdAt = now\<rparr>
              in (next_id s, addDoc_groups groupData s)))"

text \<open>
  The first half of \<^verbatim>\<open>deleteGroup\<close>: the expenses of the group are queried and a
  \<^verbatim>\<open>deleteDoc\<close> is issued for each one. \<open>rejected\<close> lists the expenses whose deletion the
  backend rejects; the other deletions take effect. This is the database when
  \<^verbatim>\<open>await Promise.all(deletions)\<close> returns or throws.
\<close>

definition deleteGroup_expenses :: "doc_id list \<Rightarrow> doc_id \<Rightarrow> db \<Rightarrow> db" where
  "deleteGroup_expenses rejected groupId s =
     (let expSnap = filter (\<lambda>(i, e). e_groupId e = groupId) (expenses s)
      in fold (\<lambda>(i, e) st. if i \<in> set rejected then st
                            else st\<lparr>expenses := deleteDoc (expenses st) i\<rparr>) expSnap s)"

text \<open>
  \<^verbatim>\<open>window.deleteGroup(groupId)\<close>; \<open>confirmed\<close> is the answer to the dialog,
  \<open>rejected\<close> lists the expenses whose deletion the backend rejects and \<open>groupRejected\<close>
  says whether it rejects the deletion of the group. When a deletion is rejected,
  \<^verbatim>\<open>Promise.all\<close> or the \<^verbatim>\<open>await\<close> of the group deletion throws, and the \<^verbatim>\<open>catch\<close>
  reports the error: what follows the throwing statement does not run.
\<close>

definition deleteGroup ::
  "bool \<Rightarrow> uid \<Rightarrow> doc_id \<Rightarrow> doc_id list \<Rightarrow> bool \<Rightarrow> db \<Rightarrow> (error + unit) \<times> db" where
  "deleteGroup confirmed currentUser groupId rejected groupRejected s =
     (if \<not> confirmed then (Inl Cancelled, s)
      else
        (case getDoc (groups s) groupId of
           None \<Rightarrow> (Inl NotFound, s)
         | Some groupData \<Rightarrow>
             if g_createdBy groupData \<noteq> Some currentUser then (Inl Forbidden, s)
             else
               (let expSnap = filter (\<lambda>(i, e). e_groupId e = groupId) (expenses s);
                    s1 = deleteGroup_expenses rejected groupId s
                in if list_ex (\<lambda>(i, e). i \<in> set rejected) expSnap
                   then (Inl PersistenceError, s1)
                   else if groupRejected then (Inl PersistenceError, s1)
                   else (Inr (), s1\<lparr>groups := deleteDoc (groups s1) groupId\<rparr>))))"

section \<open>Vocabulary of the properties\<close>

subsection \<open>What one run of \<^verbatim>\<open>calculateSettlements\<close> writes\<close>

text \<open>
  The records of one run, in the order written: one per key of the share mapping other
  than the payer, then the payer's record when the total is positive.
\<close>

definition new_settlements ::
  "doc_id \<Rightarrow> doc_id option \<Rightarrow> expense \<Rightarrow> timestamp \<Rightarrow> settlement list" where
  "new_settlements groupId eid ex now =
     map (\<lambda>(m, a). settlementData groupId eid ex now m a)
         (filter (\<lambda>(m, a). m \<noteq> e_paidBy ex) (e_splitAmounts ex))
     @ (if totalOwed ex > 0 then [payerSettlement groupId eid ex now] else [])"

text \<open>A settlement belongs to the triple (debtor, creditor, originating expense).\<close>

definition same_triple :: "uid \<Rightarrow> uid \<Rightarrow> doc_id option \<Rightarrow> settlement \<Rightarrow> bool" where
  "same_triple debtor creditor eid d =
     (s_userId d = debtor \<and> s_owedTo d = creditor \<and> s_expenseId d = eid)"

definition triple_count :: "uid \<Rightarrow> uid \<Rightarrow> doc_id option \<Rightarrow> db \<Rightarrow> nat" where
  "triple_count debtor creditor eid s =
     length (filter (same_triple debtor creditor eid) (map snd (settlements s)))"

text \<open>Debtor, creditor, amount and status of every stored settlement, in store order.\<close>

definition settlement_rows :: "db \<Rightarrow> (uid \<times> uid \<times> rat \<times> status) list" where
  "settlement_rows s =
     map (\<lambda>(i, d). (s_userId d, s_owedTo d, s_amount d, s_status d)) (settlements s)"

subsection \<open>Example data\<close>

text \<open>
  A payer \<open>P\<close> and two members \<open>M1\<close>, \<open>M2\<close> in one group (document 0), and a user \<open>Z\<close>
  outside the group; the next document id is 1.
\<close>

definition mk_user :: "string \<Rightarrow> string \<Rightarrow> user" where
  "mk_user n e = \<lparr>u_name = n, u_email = e, u_xpPoints = 0, u_level = 1, u_badges = []\<rparr>"

definition demo_db :: db where
  "demo_db =
     \<lparr>users = [(''P'', mk_user ''Pat'' ''p@x.com''), (''M1'', mk_user ''Mo'' ''m1@x.com''),
               (''M2'', mk_user ''Mia'' ''m2@x.com''), (''Z'', mk_user ''Zed'' ''z@x.com'')],
      groups = [(0, \<lparr>g_name = ''Trip'', g_description = '''',
                     g_members = [''P'', ''M1'', ''M2''],
                     g_memberEmails = [''m1@x.com'', ''m2@x.com''],
                     g_pendingMemberEmails = [],
                     g_createdBy = Some ''P'', g_createdAt = ''t0''\<rparr>)],
      expenses = [], settlements = [], next_id = 1\<rparr>"

text \<open>An expense of 300 paid by \<open>P\<close>, split equally among \<open>P\<close>, \<open>M1\<close> and \<open>M2\<close>.\<close>

definition demo_equal_form :: expense_form where
  "demo_equal_form =
     \<lparr>f_expenseGroup = 0, f_expenseDescription = ''Dinner'', f_expenseAmount = 300,
      f_expenseDate = ''2024-01-01'', f_expensePaidBy = ''P'', f_splitType = Equal,
      f_selectedMembers = [''P'', ''M1'', ''M2''], f_customInputs = []\<rparr>"

text \<open>
  A custom split of 100 paid by \<open>P\<close>: \<open>M1\<close> bears all of it, the input of \<open>M2\<close> is left
  blank and \<open>P\<close> enters 0. The shares sum to the amount.
\<close>

definition demo_zero_share_form :: expense_form where
  "demo_zero_share_form =
     \<lparr>f_expenseGroup = 0, f_expenseDescription = ''Taxi'', f_expenseAmount = 100,
      f_expenseDate = ''2024-01-02'', f_expensePaidBy = ''P'', f_splitType = Custom,
      f_selectedMembers = [''P'', ''M1'', ''M2''],
      f_customInputs = [(''P'', 0), (''M1'', 100)]\<rparr>"

text \<open>A custom split of 100 whose shares sum to 90.\<close>

definition demo_mismatch_form :: expense_form where
  "demo_mismatch_form =
     \<lparr>f_expenseGroup = 0, f_expenseDescription = ''Taxi'', f_expenseAmount = 100,
      f_expenseDate = ''2024-01-02'', f_expensePaidBy = ''P'', f_splitType = Custom,
      f_selectedMembers = [''P'', ''M1'', ''M2''],
      f_customInputs = [(''M1'', 60), (''M2'', 30)]\<rparr>"

text \<open>
  The database after the equal expense has been added: the expense is document 1, the
  settlements of \<open>M1\<close>, \<open>M2\<close> and \<open>P\<close> are documents 2, 3 and 4.
\<close>

definition demo_db1 :: db where
  "demo_db1 = snd (addExpense demo_equal_form ''t1'' demo_db)"

text \<open>The expense object that \<^verbatim>\<open>addExpense\<close> hands to \<^verbatim>\<open>calculateSettlements\<close> there.\<close>

definition demo_expense :: expense where
  "demo_expense =
     \<lparr>e_groupId = 0, e_groupName = ''Trip'', e_description = ''Dinner'', e_amount = 300,
      e_date = ''2024-01-01'', e_paidBy = ''P'', e_splitType = Equal,
      e_splitMembers = [''P'', ''M1'', ''M2''],
      e_splitAmounts = [(''P'', 100), (''M1'', 100), (''M2'', 100)],
      e_createdAt = ''t1'', e_settlementStatus = None\<rparr>"

subsection \<open>Vocabulary for \<^verbatim>\<open>addExpense\<close>\<close>

text \<open>
  The sum of the shares supplied for the selected members (\<^verbatim>\<open>totalCustom\<close>), the share
  mappings of the stored expenses, and the equal policy as the specification words it: the
  amount divided among the selected members other than the payer, and no positive share
  under the payer's own key.
\<close>

definition supplied_total :: "expense_form \<Rightarrow> rat" where
  "supplied_total f =
     sum_list (map (\<lambda>m. case map_of (f_customInputs f) m of None \<Rightarrow> 0 | Some v \<Rightarrow> v)
                   (f_selectedMembers f))"

definition stored_splits :: "db \<Rightarrow> (uid \<times> rat) list list" where
  "stored_splits s = map (\<lambda>(i, e). e_splitAmounts e) (expenses s)"

definition spec_equal_shares :: "uid \<Rightarrow> rat \<Rightarrow> uid list \<Rightarrow> (uid \<times> rat) list \<Rightarrow> bool" where
  "spec_equal_shares payer amount selected sa =
     (let others = filter (\<lambda>m. m \<noteq> payer) selected
      in list_all (\<lambda>m. map_of sa m = Some (amount / of_nat (length others))) others \<and>
         (case map_of sa payer of None \<Rightarrow> True | Some v \<Rightarrow> \<not> v > 0))"

subsection \<open>Vocabulary for the balance aggregator\<close>






text \<open>
  The example database after \<open>M1\<close> has paid: the payment callback has run on settlement 2,
  the record of \<open>M1\<close>, with \<open>M1\<close> logged in.
\<close>

definition demo_db2 :: db where
  "demo_db2 = snd (handlePaymentSuccess (Some ''M1'') ''pay_1'' 2 ''t2'' demo_db1)"

subsection \<open>Vocabulary for marking debts paid\<close>

text \<open>The mark stored for a user in the \<^verbatim>\<open>settlementStatus\<close> map of an expense, if any.\<close>

definition status_of :: "doc_id \<Rightarrow> uid \<Rightarrow> db \<Rightarrow> status option" where
  "status_of expenseId u s =
     (case getDoc (expenses s) expenseId of
        None \<Rightarrow> None
      | Some e \<Rightarrow> (case e_settlementStatus e of None \<Rightarrow> None | Some m \<Rightarrow> map_of m u))"

text \<open>
  An expense with its \<^verbatim>\<open>settlementStatus\<close> field blanked, the stored expenses seen that way,
  and the stored expenses other than a given one.
\<close>

definition without_status :: "expense \<Rightarrow> expense" where
  "without_status e = e\<lparr>e_settlementStatus := None\<rparr>"

definition expense_cores :: "db \<Rightarrow> (doc_id \<times> expense) list" where
  "expense_cores s = map (\<lambda>(i, e). (i, without_status e)) (expenses s)"

definition other_expenses :: "doc_id \<Rightarrow> db \<Rightarrow> (doc_id \<times> expense) list" where
  "other_expenses expenseId s = filter (\<lambda>(i, e). i \<noteq> expenseId) (expenses s)"

subsection \<open>Vocabulary for group deletion\<close>

text \<open>The stored expenses and the stored settlements that reference a group.\<close>

definition group_expenses :: "doc_id \<Rightarrow> db \<Rightarrow> (doc_id \<times> expense) list" where
  "group_expenses groupId s = filter (\<lambda>(i, e). e_groupId e = groupId) (expenses s)"

definition group_settlements :: "doc_id \<Rightarrow> db \<Rightarrow> (doc_id \<times> settlement) list" where
  "group_settlements groupId s = filter (\<lambda>(i, d). s_groupId d = groupId) (settlements s)"

subsection \<open>Example data for membership resolution\<close>

text \<open>
  Accounts \<open>A\<close>, \<open>B\<close>, \<open>C\<close>. Group 0 has the member \<open>A\<close>, the known member email of \<open>B\<close>
  and two pending emails, of which the first belongs to the account \<open>C\<close> and the second to
  no account.
\<close>

definition demo_members_db :: db where
  "demo_members_db =
     \<lparr>users = [(''A'', mk_user ''Ann'' ''a@x.com''), (''B'', mk_user ''Bob'' ''b@x.com''),
               (''C'', mk_user ''Cy'' ''c@x.com'')],
      groups = [(0, \<lparr>g_name = ''Flat'', g_description = [],
                     g_members = [''A''],
                     g_memberEmails = [''b@x.com''],
                     g_pendingMemberEmails = [''c@x.com'', ''d@x.com''],
                     g_createdBy = Some ''A'', g_createdAt = ''t0''\<rparr>)],
      expenses = [], settlements = [], next_id = 1\<rparr>"

section \<open>Settlement ledger\<close>

subsection \<open>The records written by one run\<close>

lemma fold_addDoc_settlements:
  "map snd (settlements (fold (\<lambda>(m, a) st. if m = p then st else addDoc_settlements (f m a) st) xs s))
     = map snd (settlements s) @ map (\<lambda>(m, a). f m a) (filter (\<lambda>(m, a). m \<noteq> p) xs)"
  by (induction xs arbitrary: s) (auto simp: addDoc_settlements_def)

lemma settlements_calculateSettlements:
  "map snd (settlements (calculateSettlements groupId eid ex now s))
     = map snd (settlements s) @ new_settlements groupId eid ex now"
  by (simp add: calculateSettlements_def new_settlements_def Let_def fold_addDoc_settlements
                addDoc_settlements_def)

lemma fold_addDoc_settlements_frame:
  "users (fold (\<lambda>(m, a) st. if m = p then st else addDoc_settlements (f m a) st) xs s) = users s \<and>
   groups (fold (\<lambda>(m, a) st. if m = p then st else addDoc_settlements (f m a) st) xs s) = groups s \<and>
   expenses (fold (\<lambda>(m, a) st. if m = p then st else addDoc_settlements (f m a) st) xs s) = expenses s"
  by (induction xs arbitrary: s) (auto simp: addDoc_settlements_def)

lemma calculateSettlements_frame:
  "users (calculateSettlements groupId eid ex now s) = users s"
  "groups (calculateSettlements groupId eid ex now s) = groups s"
  "expenses (calculateSettlements groupId eid ex now s) = expenses s"
  by (simp_all add: calculateSettlements_def Let_def fold_addDoc_settlements_frame
                addDoc_settlements_def)

text \<open>
  C1, evaluated where the code departs from it. A custom split of 100 in which \<open>M2\<close>
  leaves the input blank and \<open>M1\<close> bears everything passes validation, and
  \<^verbatim>\<open>calculateSettlements\<close> then writes a pending record of amount 0 with debtor \<open>M2\<close>:
  the loop skips the payer only, not the shares that are not positive.
\<close>

theorem calculateSettlements_writes_zero_share:
  "fst (addExpense demo_zero_share_form ''t1'' demo_db) = Inr 1 \<and>
   settlement_rows (snd (addExpense demo_zero_share_form ''t1'' demo_db))
     = [(''M1'', ''P'', 100, Pending), (''M2'', ''P'', 0, Pending), (''P'', ''P'', - 100, Pending)]"
  by (simp add: settlement_rows_def addExpense_def demo_zero_share_form_def demo_db_def
        mk_user_def custom_split_def addDoc_expenses_def calculateSettlements_def totalOwed_def
        addDoc_settlements_def settlementData_def payerSettlement_def awardXP_def
        checkBadges_def badgeDefinitions_def getDoc_def updateDoc_def or_default_def Let_def)

subsection \<open>Running the recording twice\<close>

lemma triple_count_calculateSettlements:
  "triple_count d c e (calculateSettlements groupId eid ex now s)
     = triple_count d c e s + length (filter (same_triple d c e) (new_settlements groupId eid ex now))"
  by (simp add: triple_count_def settlements_calculateSettlements)

lemma count_key_distinct:
  "distinct (map fst xs) \<Longrightarrow> length (filter (\<lambda>(m, a). m = k \<and> Q m) xs) \<le> 1"
proof (induction xs)
  case Nil
  then show ?case by simp
next
  case (Cons x xs)
  obtain m a where x: "x = (m, a)" by (cases x)
  show ?case
  proof (cases "m = k")
    case True
    with Cons.prems x have "k \<notin> fst ` set xs" by auto
    then have "filter (\<lambda>(m, a). m = k \<and> Q m) xs = []"
      by (force simp: filter_empty_conv)
    with x show ?thesis by simp
  next
    case False
    with Cons x show ?thesis by simp
  qed
qed

lemma new_settlements_time:
  "length (filter (same_triple d c e) (new_settlements groupId eid ex t1))
     = length (filter (same_triple d c e) (new_settlements groupId eid ex t2))"
  by (auto simp: new_settlements_def same_triple_def settlementData_def payerSettlement_def
                filter_map comp_def case_prod_unfold)

lemma new_settlements_triple_le_1:
  assumes "distinct (map fst (e_splitAmounts ex))"
  shows "length (filter (same_triple d c e) (new_settlements groupId eid ex now)) \<le> 1"
proof -
  let ?dir = "filter (same_triple d c e) (map (\<lambda>(m, a). settlementData groupId eid ex now m a)
               (filter (\<lambda>(m, a). m \<noteq> e_paidBy ex) (e_splitAmounts ex)))"
  have len: "length ?dir =
      length (filter (\<lambda>(m, a). m = d \<and> (m \<noteq> e_paidBy ex \<and> e_paidBy ex = c \<and> eid = e))
                     (e_splitAmounts ex))"
    by (simp add: filter_map comp_def same_triple_def settlementData_def case_prod_unfold
                  conj_commute conj_left_commute)
  have le: "length ?dir \<le> 1"
    unfolding len using assms by (rule count_key_distinct)
  show ?thesis
  proof (cases "d = e_paidBy ex")
    case True
    then have "length ?dir = 0"
      unfolding len by (auto simp: filter_empty_conv)
    then show ?thesis
      by (simp add: new_settlements_def)
  next
    case False
    then have "\<not> same_triple d c e (payerSettlement groupId eid ex now)"
      by (auto simp: same_triple_def payerSettlement_def)
    with le show ?thesis
      by (simp add: new_settlements_def)
  qed
qed

text \<open>
  C5, as the code has it. \<^verbatim>\<open>calculateSettlements\<close> never looks at the stored settlements:
  every run appends its records. On a store that holds no record of a triple, one run
  leaves at most one record of it (the keys of a share mapping are distinct), and a second
  run with the same expense id doubles what the first one left.
\<close>

theorem calculateSettlements_rerun_appends:
  assumes "distinct (map fst (e_splitAmounts ex))" and "triple_count d c e s = 0"
  shows "triple_count d c e (calculateSettlements groupId eid ex t1 s) \<le> 1 \<and>
         triple_count d c e
             (calculateSettlements groupId eid ex t2 (calculateSettlements groupId eid ex t1 s))
           = 2 * triple_count d c e (calculateSettlements groupId eid ex t1 s)"
  using assms new_settlements_triple_le_1 [OF assms(1), of d c e groupId eid t1]
        new_settlements_time [of d c e groupId eid ex t2 t1]
  by (simp add: triple_count_calculateSettlements)

text \<open>
  Witness for C5: the equal expense of 300 on the example database, triple
  (\<open>M1\<close>, \<open>P\<close>, expense 1).
\<close>

theorem calculateSettlements_rerun_appends_witness:
  "distinct (map fst (e_splitAmounts demo_expense)) \<and>
   triple_count ''M1'' ''P'' (Some 1) demo_db = 0 \<and>
   triple_count ''M1'' ''P'' (Some 1) (calculateSettlements 0 (Some 1) demo_expense ''t1'' demo_db) \<le> 1 \<and>
   triple_count ''M1'' ''P'' (Some 1)
       (calculateSettlements 0 (Some 1) demo_expense ''t2''
          (calculateSettlements 0 (Some 1) demo_expense ''t1'' demo_db))
     = 2 * triple_count ''M1'' ''P'' (Some 1)
             (calculateSettlements 0 (Some 1) demo_expense ''t1'' demo_db)"
proof -
  have h1: "distinct (map fst (e_splitAmounts demo_expense))"
    by (simp add: demo_expense_def)
  have h2: "triple_count ''M1'' ''P'' (Some 1) demo_db = 0"
    by (simp add: triple_count_def demo_db_def)
  show ?thesis
    using h1 h2 calculateSettlements_rerun_appends [OF h1 h2, of 0 "Some 1" "''t1''" "''t2''"]
    by simp
qed

text \<open>
  Counterexample to C5 as stated: after two runs for expense 1 the store holds two
  settlements of the triple (\<open>M1\<close>, \<open>P\<close>, expense 1).
\<close>

theorem calculateSettlements_not_idempotent:
  "triple_count ''M1'' ''P'' (Some 1)
      (calculateSettlements 0 (Some 1) demo_expense ''t2''
         (calculateSettlements 0 (Some 1) demo_expense ''t1'' demo_db)) = 2"
  unfolding triple_count_calculateSettlements
  by (simp add: new_settlements_def same_triple_def settlementData_def payerSettlement_def
        totalOwed_def demo_expense_def triple_count_def demo_db_def)

section \<open>Split calculator and \<^verbatim>\<open>addExpense\<close>\<close>

lemma map_of_obj_set: "map_of (obj_set ps k v) = (map_of ps)(k \<mapsto> v)"
  by (induction ps k v rule: obj_set.induct) (auto simp: fun_eq_iff)

lemma fst_set_obj_set: "fst ` set (obj_set ps k v) = insert k (fst ` set ps)"
  by (induction ps k v rule: obj_set.induct) auto

lemma distinct_obj_set: "distinct (map fst ps) \<Longrightarrow> distinct (map fst (obj_set ps k v))"
  by (induction ps k v rule: obj_set.induct) (auto simp: fst_set_obj_set)

lemma map_of_fold_obj_set:
  "map_of (fold (\<lambda>m sa. obj_set sa m v) sel sa0) k
     = (if k \<in> set sel then Some v else map_of sa0 k)"
  by (induction sel arbitrary: sa0) (auto simp: map_of_obj_set)

lemma map_of_equal_split:
  "map_of (equal_split amount sel) k
     = (if k \<in> set sel then Some (amount / of_nat (length sel)) else None)"
  by (simp add: equal_split_def Let_def map_of_fold_obj_set)

lemma distinct_fold_obj_set:
  "distinct (map fst sa0) \<Longrightarrow> distinct (map fst (fold (\<lambda>m sa. obj_set sa m v) sel sa0))"
  by (induction sel arbitrary: sa0) (auto simp: distinct_obj_set)

lemma distinct_equal_split: "distinct (map fst (equal_split amount sel))"
  by (simp add: equal_split_def Let_def distinct_fold_obj_set)

lemma snd_fold_custom:
  "snd (fold (\<lambda>memberId (splitAmounts, totalCustom).
             (let customAmount = (case map_of ci memberId of None \<Rightarrow> 0 | Some v \<Rightarrow> v)
              in (obj_set splitAmounts memberId customAmount, totalCustom + customAmount)))
          sel (sa0, t0))
     = t0 + sum_list (map (\<lambda>m. case map_of ci m of None \<Rightarrow> 0 | Some v \<Rightarrow> v) sel)"
  by (induction sel arbitrary: sa0 t0) (auto simp: Let_def add.assoc)

lemma snd_custom_split: "snd (custom_split (f_customInputs f) (f_selectedMembers f)) = supplied_total f"
  by (simp add: custom_split_def supplied_total_def snd_fold_custom)

lemma checkBadges_frame:
  "expenses (checkBadges u xp lv s) = expenses s"
  "settlements (checkBadges u xp lv s) = settlements s"
  "groups (checkBadges u xp lv s) = groups s"
  "next_id (checkBadges u xp lv s) = next_id s"
  by (simp_all add: checkBadges_def Let_def split: option.splits)

lemma awardXP_frame:
  "expenses (awardXP u p s) = expenses s"
  "settlements (awardXP u p s) = settlements s"
  "groups (awardXP u p s) = groups s"
  "next_id (awardXP u p s) = next_id s"
  by (simp_all add: awardXP_def Let_def checkBadges_frame split: option.splits)

text \<open>
  C4. Under the custom policy, when the shares supplied for the selected members sum to a
  value that differs from the amount by more than 0.01, \<^verbatim>\<open>addExpense\<close> ends with a
  validation error (no member selected, or split mismatch with the two totals) and the
  database is exactly what it was: no expense, no settlement, no other change.
\<close>

theorem addExpense_custom_mismatch:
  assumes "f_splitType f = Custom"
    and "\<bar>supplied_total f - f_expenseAmount f\<bar> > 1 / 100"
  shows "addExpense f now s =
           (Inl (if f_selectedMembers f = [] then NoMembersSelected
                 else SplitMismatch (supplied_total f) (f_expenseAmount f)), s)"
proof -
  obtain sa t where c: "custom_split (f_customInputs f) (f_selectedMembers f) = (sa, t)"
    by (cases "custom_split (f_customInputs f) (f_selectedMembers f)")
  then have "t = supplied_total f"
    using snd_custom_split [of f] by simp
  with assms c show ?thesis
    by (simp add: addExpense_def Let_def)
qed

text \<open>Witness for C4: amount 100 against supplied shares 60 and 30.\<close>

theorem addExpense_custom_mismatch_witness:
  "f_splitType demo_mismatch_form = Custom \<and>
   \<bar>supplied_total demo_mismatch_form - f_expenseAmount demo_mismatch_form\<bar> > 1 / 100 \<and>
   addExpense demo_mismatch_form ''t1'' demo_db = (Inl (SplitMismatch 90 100), demo_db)"
proof -
  have h1: "f_splitType demo_mismatch_form = Custom"
    by (simp add: demo_mismatch_form_def)
  have h2: "\<bar>supplied_total demo_mismatch_form - f_expenseAmount demo_mismatch_form\<bar> > 1 / 100"
    by (simp add: demo_mismatch_form_def supplied_total_def)
  have v: "supplied_total demo_mismatch_form = 90" "f_expenseAmount demo_mismatch_form = 100"
     "f_selectedMembers demo_mismatch_form \<noteq> []"
    by (simp_all add: demo_mismatch_form_def supplied_total_def)
  show ?thesis
    using h1 h2 addExpense_custom_mismatch [OF h1 h2, of "''t1''" demo_db] v
    by simp
qed

lemma expenses_addExpense:
  assumes "fst (addExpense f now s) = Inr i"
  shows "\<exists>e. i = next_id s \<and> expenses (snd (addExpense f now s)) = expenses s @ [(i, e)]"
  using assms
  by (auto simp: addExpense_def Let_def awardXP_frame calculateSettlements_frame
        addDoc_expenses_def split: if_splits prod.splits sum.splits)

text \<open>
  C3, as the code has it. Under the equal policy with at least one member selected,
  \<^verbatim>\<open>addExpense\<close> succeeds and appends one expense whose share mapping has exactly the
  selected members as keys, the payer included when selected, each with the amount divided
  by the number of selected members.
\<close>

theorem addExpense_equal_shares:
  assumes "f_splitType f = Equal" and "f_selectedMembers f \<noteq> []"
  shows "\<exists>e. fst (addExpense f now s) = Inr (next_id s) \<and>
             expenses (snd (addExpense f now s)) = expenses s @ [(next_id s, e)] \<and>
             e_paidBy e = f_expensePaidBy f \<and>
             e_splitMembers e = f_selectedMembers f \<and>
             (\<forall>m. map_of (e_splitAmounts e) m =
                    (if m \<in> set (f_selectedMembers f)
                     then Some (f_expenseAmount f / of_nat (length (f_selectedMembers f)))
                     else None))"
  using assms
  by (simp add: addExpense_def Let_def awardXP_frame calculateSettlements_frame
        addDoc_expenses_def map_of_equal_split)

text \<open>Witness for C3: 300 among \<open>P\<close>, \<open>M1\<close>, \<open>M2\<close> gives 100 each, also to the payer \<open>P\<close>.\<close>

theorem addExpense_equal_shares_witness:
  "f_splitType demo_equal_form = Equal \<and> f_selectedMembers demo_equal_form \<noteq> [] \<and>
   (\<exists>e. fst (addExpense demo_equal_form ''t1'' demo_db) = Inr 1 \<and>
        expenses (snd (addExpense demo_equal_form ''t1'' demo_db)) = [(1, e)] \<and>
        e_paidBy e = ''P'' \<and>
        map_of (e_splitAmounts e) ''P'' = Some 100 \<and>
        map_of (e_splitAmounts e) ''M1'' = Some 100 \<and>
        map_of (e_splitAmounts e) ''M2'' = Some 100)"
proof -
  have h1: "f_splitType demo_equal_form = Equal" and h2: "f_selectedMembers demo_equal_form \<noteq> []"
    by (simp_all add: demo_equal_form_def)
  from addExpense_equal_shares [OF h1 h2, of "''t1''" demo_db]
  obtain e where e: "fst (addExpense demo_equal_form ''t1'' demo_db) = Inr (next_id demo_db)"
       "expenses (snd (addExpense demo_equal_form ''t1'' demo_db)) = expenses demo_db @ [(next_id demo_db, e)]"
       "e_paidBy e = f_expensePaidBy demo_equal_form"
       "\<forall>m. map_of (e_splitAmounts e) m =
                    (if m \<in> set (f_selectedMembers demo_equal_form)
                     then Some (f_expenseAmount demo_equal_form / of_nat (length (f_selectedMembers demo_equal_form)))
                     else None)"
    by blast
  have "map_of (e_splitAmounts e) ''P'' = Some 100" "map_of (e_splitAmounts e) ''M1'' = Some 100"
       "map_of (e_splitAmounts e) ''M2'' = Some 100"
    using e(4) by (simp_all add: demo_equal_form_def)
  moreover have "next_id demo_db = 1" "expenses demo_db = []" "f_expensePaidBy demo_equal_form = ''P''"
    by (simp_all add: demo_db_def demo_equal_form_def)
  ultimately show ?thesis
    using h1 h2 e(1,2,3) by auto
qed

text \<open>
  Counterexample to C3 as stated: for that expense the stored mapping gives \<open>M1\<close> 100, not
  300 divided by the two members other than the payer, and holds the payer's key with the
  positive share 100.
\<close>

theorem addExpense_equal_counterexample:
  "stored_splits demo_db1 = [e_splitAmounts demo_expense] \<and>
   e_splitAmounts demo_expense = [(''P'', 100), (''M1'', 100), (''M2'', 100)] \<and>
   \<not> spec_equal_shares ''P'' 300 [''P'', ''M1'', ''M2'']
        [(''P'', 100), (''M1'', 100), (''M2'', 100)]"
  by (simp add: stored_splits_def demo_db1_def spec_equal_shares_def demo_expense_def
        addExpense_def demo_equal_form_def demo_db_def
        mk_user_def equal_split_def addDoc_expenses_def calculateSettlements_def totalOwed_def
        addDoc_settlements_def settlementData_def payerSettlement_def awardXP_def
        checkBadges_def badgeDefinitions_def getDoc_def updateDoc_def or_default_def Let_def)

section \<open>Balance aggregator\<close>

lemma demo_db1_value:
  "demo_db1 =
     \<lparr>users = [(''P'', \<lparr>u_name = ''Pat'', u_email = ''p@x.com'', u_xpPoints = 10, u_level = 1,
                       u_badges = [''first_expense'']\<rparr>),
               (''M1'', mk_user ''Mo'' ''m1@x.com''), (''M2'', mk_user ''Mia'' ''m2@x.com''),
               (''Z'', mk_user ''Zed'' ''z@x.com'')],
      groups = groups demo_db,
      expenses = [(1, demo_expense)],
      settlements =
        [(2, settlementData 0 (Some 1) demo_expense ''t1'' ''M1'' 100),
         (3, settlementData 0 (Some 1) demo_expense ''t1'' ''M2'' 100),
         (4, payerSettlement 0 (Some 1) demo_expense ''t1'')],
      next_id = 5\<rparr>"
  by (simp add: demo_db1_def addExpense_def demo_equal_form_def demo_db_def demo_expense_def
        mk_user_def equal_split_def addDoc_expenses_def calculateSettlements_def totalOwed_def
        addDoc_settlements_def settlementData_def payerSettlement_def awardXP_def
        checkBadges_def badgeDefinitions_def getDoc_def updateDoc_def or_default_def Let_def)

lemma demo_db1_settlements:
  "settlements demo_db1 =
     [(2, \<lparr>s_groupId = 0, s_expenseId = Some 1, s_userId = ''M1'', s_owedTo = ''P'',
           s_amount = 100, s_description = ''Dinner'', s_status = Pending,
           s_createdAt = ''t1'', s_paidAt = None, s_paymentId = None\<rparr>),
      (3, \<lparr>s_groupId = 0, s_expenseId = Some 1, s_userId = ''M2'', s_owedTo = ''P'',
           s_amount = 100, s_description = ''Dinner'', s_status = Pending,
           s_createdAt = ''t1'', s_paidAt = None, s_paymentId = None\<rparr>),
      (4, \<lparr>s_groupId = 0, s_expenseId = Some 1, s_userId = ''P'', s_owedTo = ''P'',
           s_amount = - 200, s_description = ''Dinner'', s_status = Pending,
           s_createdAt = ''t1'', s_paidAt = None, s_paymentId = None\<rparr>)]"
  by (simp add: demo_db1_value settlementData_def payerSettlement_def totalOwed_def
        demo_expense_def or_default_def)

lemma demo_db2_settlements:
  "settlements demo_db2 =
     [(2, \<lparr>s_groupId = 0, s_expenseId = Some 1, s_userId = ''M1'', s_owedTo = ''P'',
           s_amount = 100, s_description = ''Dinner'', s_status = Paid,
           s_createdAt = ''t1'', s_paidAt = Some ''t2'', s_paymentId = Some ''pay_1''\<rparr>),
      (3, \<lparr>s_groupId = 0, s_expenseId = Some 1, s_userId = ''M2'', s_owedTo = ''P'',
           s_amount = 100, s_description = ''Dinner'', s_status = Pending,
           s_createdAt = ''t1'', s_paidAt = None, s_paymentId = None\<rparr>),
      (4, \<lparr>s_groupId = 0, s_expenseId = Some 1, s_userId = ''P'', s_owedTo = ''P'',
           s_amount = - 200, s_description = ''Dinner'', s_status = Pending,
           s_createdAt = ''t1'', s_paidAt = None, s_paymentId = None\<rparr>)]"
  by (simp add: demo_db2_def handlePaymentSuccess_def getDoc_def updateDoc_def Let_def
        awardXP_frame demo_db1_settlements)








section \<open>Marking debts paid\<close>

lemma getDoc_updateDoc:
  "getDoc (updateDoc c k f) j = (if j = k then map_option f (getDoc c k) else getDoc c j)"
  by (induction c) (auto simp: getDoc_def updateDoc_def)

lemma getDoc_Nil: "getDoc [] j = None"
  by (simp add: getDoc_def)

lemma getDoc_Cons: "getDoc ((k, v) # c) j = (if j = k then Some v else getDoc c j)"
  by (simp add: getDoc_def)

lemma updateDoc_idem:
  assumes "\<And>d. f (f d) = f d"
  shows "updateDoc (updateDoc c k f) k f = updateDoc c k f"
  using assms by (induction c) (auto simp: updateDoc_def)

lemma obj_set_idem: "obj_set (obj_set m k v) k v = obj_set m k v"
  by (induction m k v rule: obj_set.induct) auto

lemma settlePayment_payer:
  assumes "getDoc (expenses s) eid = Some ex"
  shows "settlePayment (Some (e_paidBy ex)) eid s = (Inl Forbidden, s)"
  using assms by (simp add: settlePayment_def Let_def)

lemma settlePayment_other:
  assumes "getDoc (expenses s) eid = Some ex" and "cu \<noteq> e_paidBy ex"
  shows "settlePayment (Some cu) eid s =
           (Inr (), s\<lparr>expenses := updateDoc (expenses s) eid
              (\<lambda>d. d\<lparr>e_settlementStatus :=
                    Some (obj_set (case e_settlementStatus ex of None \<Rightarrow> [] | Some m \<Rightarrow> m) cu Paid)\<rparr>)\<rparr>)"
  using assms by (simp add: settlePayment_def Let_def)

lemma settlePayment_again:
  assumes "getDoc (expenses s) eid = Some ex" and "cu \<noteq> e_paidBy ex"
  shows "settlePayment (Some cu) eid (snd (settlePayment (Some cu) eid s))
           = (Inr (), snd (settlePayment (Some cu) eid s))"
proof -
  let ?old = "case e_settlementStatus ex of None \<Rightarrow> [] | Some m \<Rightarrow> m"
  let ?f = "\<lambda>d. d\<lparr>e_settlementStatus := Some (obj_set ?old cu Paid)\<rparr>"
  let ?s1 = "s\<lparr>expenses := updateDoc (expenses s) eid ?f\<rparr>"
  have s1: "snd (settlePayment (Some cu) eid s) = ?s1"
    using settlePayment_other [OF assms] by simp
  have g: "getDoc (expenses ?s1) eid = Some (?f ex)"
    using assms(1) by (simp add: getDoc_updateDoc)
  have p: "cu \<noteq> e_paidBy (?f ex)"
    using assms(2) by simp
  have "settlePayment (Some cu) eid ?s1 =
          (Inr (), ?s1\<lparr>expenses := updateDoc (expenses ?s1) eid ?f\<rparr>)"
    using settlePayment_other [OF g p] by (simp add: obj_set_idem)
  moreover have "updateDoc (updateDoc (expenses s) eid ?f) eid ?f = updateDoc (expenses s) eid ?f"
    by (rule updateDoc_idem) simp
  ultimately show ?thesis
    unfolding s1 by simp
qed

lemma status_of_settlePayment:
  assumes "getDoc (expenses s) eid = Some ex" and "cu \<noteq> e_paidBy ex"
  shows "status_of eid u (snd (settlePayment (Some cu) eid s))
           = (if u = cu then Some Paid else status_of eid u s)"
  using assms
  by (simp add: settlePayment_other status_of_def getDoc_updateDoc map_of_obj_set
           split: option.splits)

lemma handlePaymentSuccess_existing:
  assumes "getDoc (settlements s) sid = Some d"
  shows "fst (handlePaymentSuccess caller pid sid now s) = Inr ()"
    and "getDoc (settlements (snd (handlePaymentSuccess caller pid sid now s))) sid
           = Some (d\<lparr>s_status := Paid, s_paidAt := Some now, s_paymentId := Some pid\<rparr>)"
  using assms
  by (simp_all add: handlePaymentSuccess_def Let_def awardXP_frame getDoc_updateDoc
        split: option.splits)

lemma handlePaymentSuccess_expenses:
  "expenses (snd (handlePaymentSuccess caller pid sid now s)) = expenses s"
  by (simp add: handlePaymentSuccess_def Let_def awardXP_frame split: option.splits)

text \<open>
  C6, as the code has it. On the expense-details page \<^verbatim>\<open>settlePayment\<close> refuses the payer
  of the expense (Forbidden, nothing written); for every other logged-in caller, with or
  without a share in the expense, it succeeds and marks paid the caller's own entry of the
  expense's \<^verbatim>\<open>settlementStatus\<close> and no other entry, and calling it again succeeds and
  changes nothing. The payment callback \<^verbatim>\<open>handlePaymentSuccess\<close> checks no caller: on an
  existing settlement it succeeds for every caller and sets the status to paid, the payment
  time and the payment id, all other fields staying as they are; so on an already paid
  settlement it succeeds again and the status stays paid.
\<close>

theorem markPaid_checks:
  assumes "getDoc (expenses s) eid = Some ex"
    and "cu \<noteq> e_paidBy ex"
    and "getDoc (settlements s) sid = Some d"
  shows "settlePayment (Some (e_paidBy ex)) eid s = (Inl Forbidden, s) \<and>
         fst (settlePayment (Some cu) eid s) = Inr () \<and>
         status_of eid u (snd (settlePayment (Some cu) eid s))
           = (if u = cu then Some Paid else status_of eid u s) \<and>
         settlePayment (Some cu) eid (snd (settlePayment (Some cu) eid s))
           = (Inr (), snd (settlePayment (Some cu) eid s)) \<and>
         fst (handlePaymentSuccess caller pid sid now s) = Inr () \<and>
         getDoc (settlements (snd (handlePaymentSuccess caller pid sid now s))) sid
           = Some (d\<lparr>s_status := Paid, s_paidAt := Some now, s_paymentId := Some pid\<rparr>)"
  using settlePayment_payer [OF assms(1)] settlePayment_other [OF assms(1,2)]
        status_of_settlePayment [OF assms(1,2), of u] settlePayment_again [OF assms(1,2)]
        handlePaymentSuccess_existing [OF assms(3), of caller pid now]
  by simp

lemma demo_db1_expenses: "expenses demo_db1 = [(1, demo_expense)]"
  by (simp add: demo_db1_value)

text \<open>
  Witness for C6: the example after \<open>M1\<close> has paid settlement 2. The payer \<open>P\<close> is refused,
  \<open>Z\<close> is not, and a second payment callback for \<open>M1\<close> succeeds.
\<close>

theorem markPaid_checks_witness:
  "getDoc (expenses demo_db2) 1 = Some demo_expense \<and>
   ''Z'' \<noteq> e_paidBy demo_expense \<and>
   getDoc (settlements demo_db2) 2
     = Some \<lparr>s_groupId = 0, s_expenseId = Some 1, s_userId = ''M1'', s_owedTo = ''P'',
            s_amount = 100, s_description = ''Dinner'', s_status = Paid,
            s_createdAt = ''t1'', s_paidAt = Some ''t2'', s_paymentId = Some ''pay_1''\<rparr> \<and>
   settlePayment (Some ''P'') 1 demo_db2 = (Inl Forbidden, demo_db2) \<and>
   fst (settlePayment (Some ''Z'') 1 demo_db2) = Inr () \<and>
   status_of 1 ''Z'' (snd (settlePayment (Some ''Z'') 1 demo_db2)) = Some Paid \<and>
   settlePayment (Some ''Z'') 1 (snd (settlePayment (Some ''Z'') 1 demo_db2))
     = (Inr (), snd (settlePayment (Some ''Z'') 1 demo_db2)) \<and>
   fst (handlePaymentSuccess (Some ''M1'') ''pay_9'' 2 ''t3'' demo_db2) = Inr () \<and>
   map_option s_status
       (getDoc (settlements (snd (handlePaymentSuccess (Some ''M1'') ''pay_9'' 2 ''t3'' demo_db2))) 2)
     = Some Paid"
proof -
  let ?d = "\<lparr>s_groupId = 0, s_expenseId = Some 1, s_userId = ''M1'', s_owedTo = ''P'',
            s_amount = 100, s_description = ''Dinner'', s_status = Paid,
            s_createdAt = ''t1'', s_paidAt = Some ''t2'', s_paymentId = Some ''pay_1''\<rparr>"
  have h1: "getDoc (expenses demo_db2) 1 = Some demo_expense"
    by (simp add: demo_db2_def handlePaymentSuccess_expenses demo_db1_expenses getDoc_Cons)
  have h2: "''Z'' \<noteq> e_paidBy demo_expense"
    by (simp add: demo_expense_def)
  have h3: "getDoc (settlements demo_db2) 2 = Some ?d"
    by (simp add: demo_db2_settlements getDoc_Cons)
  have p: "e_paidBy demo_expense = ''P''"
    by (simp add: demo_expense_def)
  note a = markPaid_checks [OF h1 h2 h3, of "''Z''" "Some ''M1''" "''pay_9''" "''t3''"]
  show ?thesis
    using h1 h2 h3 a by (simp add: p)
qed

text \<open>
  Counterexample to C6 as stated: settlement 2 has debtor \<open>M1\<close>, and the payment callback
  run for \<open>M2\<close> marks it paid; \<open>Z\<close> has no share in expense 1 and is not its payer, and
  \<^verbatim>\<open>settlePayment\<close> succeeds for \<open>Z\<close>. Neither call fails with Forbidden.
\<close>

theorem markPaid_counterexample:
  "map_option s_userId (getDoc (settlements demo_db1) 2) = Some ''M1'' \<and>
   fst (handlePaymentSuccess (Some ''M2'') ''pay_2'' 2 ''t2'' demo_db1) = Inr () \<and>
   map_option s_status
       (getDoc (settlements (snd (handlePaymentSuccess (Some ''M2'') ''pay_2'' 2 ''t2'' demo_db1))) 2)
     = Some Paid \<and>
   map_of (e_splitAmounts demo_expense) ''Z'' = None \<and>
   fst (settlePayment (Some ''Z'') 1 demo_db1) = Inr ()"
  by (simp add: handlePaymentSuccess_def Let_def awardXP_frame getDoc_updateDoc
        settlePayment_def demo_db1_expenses demo_db1_settlements getDoc_Cons getDoc_Nil
        demo_expense_def)

section \<open>Groups\<close>

subsection \<open>Creating a group\<close>

lemma push_found_keeps: "cu \<in> set (fst acc) \<Longrightarrow> cu \<in> set (fst (push_found acc u))"
  by (cases acc) (simp add: push_found_def)

lemma foldl_push_found_keeps:
  "cu \<in> set (fst acc) \<Longrightarrow> cu \<in> set (fst (foldl push_found acc us))"
  by (induction us arbitrary: acc) (simp_all add: push_found_keeps)

lemma createGroup_lookup_keeps:
  assumes "cu \<in> set (fst acc)"
  shows "cu \<in> set (fst (createGroup_lookup s acc rawEmail))"
proof -
  obtain ids pend where acc: "acc = (ids, pend)" by (cases acc)
  let ?lc = "toLowerCase rawEmail"
  obtain ids1 f1 where a: "foldl push_found (ids, None) (users_by_email s ?lc) = (ids1, f1)"
    by (cases "foldl push_found (ids, None) (users_by_email s ?lc)")
  have m1: "cu \<in> set ids1"
    using foldl_push_found_keeps [of cu "(ids, None)" "users_by_email s ?lc"] assms acc a
    by simp
  show ?thesis
  proof (cases "f1 = None \<and> rawEmail \<noteq> ?lc")
    case True
    obtain ids2 f2 where b: "foldl push_found (ids1, f1) (users_by_email s rawEmail) = (ids2, f2)"
      by (cases "foldl push_found (ids1, f1) (users_by_email s rawEmail)")
    have "cu \<in> set ids2"
      using foldl_push_found_keeps [of cu "(ids1, f1)" "users_by_email s rawEmail"] m1 b
      by simp
    with True acc a b show ?thesis
      by (simp add: createGroup_lookup_def Let_def)
  next
    case False
    with acc a m1 show ?thesis
      by (auto simp: createGroup_lookup_def Let_def)
  qed
qed

lemma foldl_createGroup_lookup_keeps:
  "cu \<in> set (fst acc) \<Longrightarrow> cu \<in> set (fst (foldl (createGroup_lookup s) acc emails))"
  by (induction emails arbitrary: acc) (simp_all add: createGroup_lookup_keeps)

text \<open>
  C10. \<^verbatim>\<open>createGroup\<close> appends one group document whose \<^verbatim>\<open>createdBy\<close> is the creating
  user and whose \<^verbatim>\<open>members\<close> list contains that user, whatever the invitee emails
  resolve to: the list starts as the creator alone and the lookups only push onto it.
\<close>

theorem createGroup_creator_is_member:
  "\<exists>g. fst (createGroup cu name description membersInput now s) = next_id s \<and>
        groups (snd (createGroup cu name description membersInput now s))
          = groups s @ [(next_id s, g)] \<and>
        g_createdBy g = Some cu \<and> cu \<in> set (g_members g)"
proof -
  let ?raw = "filter (\<lambda>email. email \<noteq> []) (map trim (split_on CHR '','' membersInput))"
  obtain ids pend where f: "foldl (createGroup_lookup s) ([cu], []) ?raw = (ids, pend)"
    by (cases "foldl (createGroup_lookup s) ([cu], []) ?raw")
  have "cu \<in> set ids"
    using foldl_createGroup_lookup_keeps [of cu "([cu], [])" s ?raw] f by simp
  then show ?thesis
    using f by (simp add: createGroup_def Let_def addDoc_groups_def)
qed

subsection \<open>Deleting a group\<close>

lemma fold_delete_expenses:
  "expenses (fold (\<lambda>(i, e) st. if i \<in> set rejected then st
                                  else st\<lparr>expenses := deleteDoc (expenses st) i\<rparr>) xs s)
     = filter (\<lambda>(j, e). j \<notin> fst ` set xs - set rejected) (expenses s)"
proof (induction xs arbitrary: s)
  case Nil
  then show ?case by simp
next
  case (Cons x xs)
  obtain i e where x: "x = (i, e)" by (cases x)
  let ?F = "\<lambda>(i, e) st. if i \<in> set rejected then st
                          else st\<lparr>expenses := deleteDoc (expenses st) i\<rparr>"
  show ?case
  proof (cases "i \<in> set rejected")
    case True
    then have "expenses (fold ?F (x # xs) s) = expenses (fold ?F xs s)"
      by (simp add: x)
    also have "\<dots> = filter (\<lambda>(j, e). j \<notin> fst ` set xs - set rejected) (expenses s)"
      by (rule Cons.IH)
    also have "\<dots> = filter (\<lambda>(j, e). j \<notin> fst ` set (x # xs) - set rejected) (expenses s)"
      using True by (auto simp: x intro: filter_cong)
    finally show ?thesis .
  next
    case False
    then have "expenses (fold ?F (x # xs) s)
        = expenses (fold ?F xs (s\<lparr>expenses := deleteDoc (expenses s) i\<rparr>))"
      by (simp add: x)
    also have "\<dots> = filter (\<lambda>(j, e). j \<notin> fst ` set xs - set rejected) (deleteDoc (expenses s) i)"
      by (simp add: Cons.IH)
    also have "\<dots> = filter (\<lambda>(j, e). j \<notin> fst ` set (x # xs) - set rejected) (expenses s)"
      using False by (auto simp: deleteDoc_def x intro: filter_cong)
    finally show ?thesis .
  qed
qed

lemma fold_delete_frame:
  "groups (fold (\<lambda>(i, e) st. if i \<in> set rejected then st
                                else st\<lparr>expenses := deleteDoc (expenses st) i\<rparr>) xs s) = groups s \<and>
   settlements (fold (\<lambda>(i, e) st. if i \<in> set rejected then st
                                else st\<lparr>expenses := deleteDoc (expenses st) i\<rparr>) xs s) = settlements s \<and>
   users (fold (\<lambda>(i, e) st. if i \<in> set rejected then st
                                else st\<lparr>expenses := deleteDoc (expenses st) i\<rparr>) xs s) = users s"
  by (induction xs arbitrary: s) auto

lemma deleteGroup_expenses_frame:
  "groups (deleteGroup_expenses rejected gid s) = groups s"
  "settlements (deleteGroup_expenses rejected gid s) = settlements s"
  "users (deleteGroup_expenses rejected gid s) = users s"
  by (simp_all add: deleteGroup_expenses_def Let_def fold_delete_frame)

lemma expenses_deleteGroup_expenses:
  "expenses (deleteGroup_expenses rejected gid s)
     = filter (\<lambda>(j, e). j \<notin> fst ` set (group_expenses gid s) - set rejected) (expenses s)"
  by (simp add: deleteGroup_expenses_def Let_def fold_delete_expenses group_expenses_def)

lemma group_expenses_deleted:
  assumes "\<not> list_ex (\<lambda>(i, e). i \<in> set rejected) (group_expenses gid s)"
  shows "group_expenses gid (deleteGroup_expenses rejected gid s) = []"
proof -
  have "j \<in> fst ` set (group_expenses gid s) - set rejected"
    if "(j, e) \<in> set (expenses s)" and "e_groupId e = gid" for j e
  proof -
    from that have m: "(j, e) \<in> set (group_expenses gid s)"
      by (simp add: group_expenses_def)
    with assms have "j \<notin> set rejected"
      by (auto simp: list_ex_iff)
    with m show ?thesis
      by force
  qed
  then show ?thesis
    unfolding group_expenses_def [of gid "deleteGroup_expenses rejected gid s"]
      expenses_deleteGroup_expenses
    by (auto simp: filter_empty_conv)
qed

lemma getDoc_deleteDoc: "getDoc (deleteDoc c k) k = None"
  by (induction c) (auto simp: getDoc_def deleteDoc_def)

lemma deleteGroup_cases:
  "(fst (deleteGroup confirmed cu gid rejected groupRejected s) = Inr () \<and>
    \<not> list_ex (\<lambda>(i, e). i \<in> set rejected) (group_expenses gid s) \<and>
    snd (deleteGroup confirmed cu gid rejected groupRejected s)
      = (deleteGroup_expenses rejected gid s)
          \<lparr>groups := deleteDoc (groups (deleteGroup_expenses rejected gid s)) gid\<rparr>) \<or>
   (fst (deleteGroup confirmed cu gid rejected groupRejected s) \<noteq> Inr () \<and>
    (snd (deleteGroup confirmed cu gid rejected groupRejected s) = s \<or>
     snd (deleteGroup confirmed cu gid rejected groupRejected s)
       = deleteGroup_expenses rejected gid s))"
  by (simp add: deleteGroup_def Let_def group_expenses_def split: option.splits)

text \<open>
  C9, as the code has it. When \<^verbatim>\<open>deleteGroup\<close> succeeds, no expense of the group and no
  group document is left. Whatever the outcome and whichever deletions the backend
  rejects, the group document is touched only when no expense of the group is left: either
  the final database holds no expense of the group, or its groups collection is what it was
  before. The settlements collection is never touched, so the settlements of the group
  stay.
\<close>

theorem deleteGroup_expenses_then_group:
  "(fst (deleteGroup confirmed cu gid rejected groupRejected s) = Inr () \<longrightarrow>
      group_expenses gid (snd (deleteGroup confirmed cu gid rejected groupRejected s)) = [] \<and>
      getDoc (groups (snd (deleteGroup confirmed cu gid rejected groupRejected s))) gid = None) \<and>
   (group_expenses gid (snd (deleteGroup confirmed cu gid rejected groupRejected s)) = [] \<or>
    groups (snd (deleteGroup confirmed cu gid rejected groupRejected s)) = groups s) \<and>
   settlements (snd (deleteGroup confirmed cu gid rejected groupRejected s)) = settlements s"
proof -
  let ?r = "deleteGroup confirmed cu gid rejected groupRejected s"
  let ?s1 = "deleteGroup_expenses rejected gid s"
  consider
    (ok) "fst ?r = Inr ()" "\<not> list_ex (\<lambda>(i, e). i \<in> set rejected) (group_expenses gid s)"
         "snd ?r = ?s1\<lparr>groups := deleteDoc (groups ?s1) gid\<rparr>"
  | (same) "fst ?r \<noteq> Inr ()" "snd ?r = s"
  | (part) "fst ?r \<noteq> Inr ()" "snd ?r = ?s1"
    using deleteGroup_cases [of confirmed cu gid rejected groupRejected s] by blast
  then show ?thesis
  proof cases
    case ok
    have "group_expenses gid (snd ?r) = group_expenses gid ?s1"
      by (simp add: ok(3) group_expenses_def)
    then have "group_expenses gid (snd ?r) = []"
      using group_expenses_deleted [OF ok(2)] by simp
    moreover have "getDoc (groups (snd ?r)) gid = None"
      by (simp add: ok(3) getDoc_deleteDoc)
    moreover have "settlements (snd ?r) = settlements s"
      by (simp add: ok(3) deleteGroup_expenses_frame)
    ultimately show ?thesis
      by simp
  next
    case same
    then show ?thesis
      by simp
  next
    case part
    then show ?thesis
      by (simp add: deleteGroup_expenses_frame)
  qed
qed

lemma demo_deleteGroup_values:
  "deleteGroup True ''P'' 0 [] False demo_db1
     = (Inr (), demo_db1\<lparr>groups := [], expenses := []\<rparr>)"
  "deleteGroup True ''P'' 0 [1] False demo_db1 = (Inl PersistenceError, demo_db1)"
  by (simp_all add: deleteGroup_def deleteGroup_expenses_def deleteDoc_def Let_def
        demo_db1_value demo_db_def demo_expense_def getDoc_Cons)

text \<open>
  Witness for C9: the creator \<open>P\<close> deletes group 0 of the example, which has expense 1.
  With no deletion rejected, the expense and the group are gone. With the deletion of
  expense 1 rejected, the operation fails and the expense and the group are both still
  stored.
\<close>

theorem deleteGroup_expenses_then_group_witness:
  "fst (deleteGroup True ''P'' 0 [] False demo_db1) = Inr () \<and>
   group_expenses 0 demo_db1 = [(1, demo_expense)] \<and>
   group_expenses 0 (snd (deleteGroup True ''P'' 0 [] False demo_db1)) = [] \<and>
   getDoc (groups (snd (deleteGroup True ''P'' 0 [] False demo_db1))) 0 = None \<and>
   fst (deleteGroup True ''P'' 0 [1] False demo_db1) = Inl PersistenceError \<and>
   group_expenses 0 (snd (deleteGroup True ''P'' 0 [1] False demo_db1)) = [(1, demo_expense)] \<and>
   groups (snd (deleteGroup True ''P'' 0 [1] False demo_db1)) = groups demo_db1"
proof -
  have h: "fst (deleteGroup True ''P'' 0 [] False demo_db1) = Inr ()"
    by (simp add: demo_deleteGroup_values)
  have g: "group_expenses 0 demo_db1 = [(1, demo_expense)]"
    by (simp add: group_expenses_def demo_db1_value demo_expense_def)
  have f: "fst (deleteGroup True ''P'' 0 [1] False demo_db1) = Inl PersistenceError"
    "snd (deleteGroup True ''P'' 0 [1] False demo_db1) = demo_db1"
    using demo_deleteGroup_values(2) by simp_all
  have "group_expenses 0 (snd (deleteGroup True ''P'' 0 [] False demo_db1)) = [] \<and>
        getDoc (groups (snd (deleteGroup True ''P'' 0 [] False demo_db1))) 0 = None"
    using h deleteGroup_expenses_then_group [of True "''P''" 0 "[]" False demo_db1] by blast
  moreover have "groups (snd (deleteGroup True ''P'' 0 [1] False demo_db1)) = groups demo_db1"
    using g f deleteGroup_expenses_then_group [of True "''P''" 0 "[1]" False demo_db1]
    by auto
  ultimately show ?thesis
    using h g f by simp
qed

text \<open>
  Counterexample to C9 as stated: after that successful deletion the settlements 2, 3 and
  4, which reference group 0, are still stored.
\<close>

theorem deleteGroup_keeps_settlements:
  "fst (deleteGroup True ''P'' 0 [] False demo_db1) = Inr () \<and>
   map fst (group_settlements 0 (snd (deleteGroup True ''P'' 0 [] False demo_db1))) = [2, 3, 4]"
  by (simp add: demo_deleteGroup_values group_settlements_def demo_db1_settlements)

section \<open>Membership resolver\<close>

text \<open>The promotion write never happens, so \<^verbatim>\<open>loadGroupMembers\<close> leaves the database as it is.\<close>

lemma loadGroupMembers_db: "snd (loadGroupMembers gid s) = s"
  by (simp add: loadGroupMembers_def updateDoc_unbound_def Let_def
           split: option.splits prod.splits)

lemma loadGroupMembers_not_written: "fst (fst (loadGroupMembers gid s)) = False"
  by (simp add: loadGroupMembers_def updateDoc_unbound_def Let_def
           split: option.splits prod.splits)

text \<open>
  C8, evaluated where the code departs from it. In group 0 of the example the pending
  email \<open>c@x.com\<close> belongs to the account \<open>C\<close>. \<^verbatim>\<open>loadGroupMembers\<close> finds \<open>C\<close> (and \<open>B\<close>,
  through the known member email) and holds them in memory, but the promotion write calls
  a function that expenses.js never imported: nothing is written, and the stored group
  still has the member \<open>A\<close> alone and both emails pending.
\<close>

theorem loadGroupMembers_promotion_not_persisted:
  "users_by_email demo_members_db ''c@x.com'' = [''C''] \<and>
   map_option g_members (getDoc (groups demo_members_db) 0) = Some [''A''] \<and>
   map_option g_pendingMemberEmails (getDoc (groups demo_members_db) 0)
     = Some [''c@x.com'', ''d@x.com''] \<and>
   loadGroupMembers 0 demo_members_db = ((False, [''A'', ''B'', ''C'']), demo_members_db)"
  by code_simp

section \<open>What may change on a stored expense\<close>

lemma expense_cores_updateDoc:
  "map (\<lambda>(i, e). (i, without_status e)) (updateDoc c k (\<lambda>d. d\<lparr>e_settlementStatus := x\<rparr>))
     = map (\<lambda>(i, e). (i, without_status e)) c"
  by (induction c) (auto simp: updateDoc_def without_status_def)

lemma other_updateDoc:
  "filter (\<lambda>(i, e). i \<noteq> k) (updateDoc c k f) = filter (\<lambda>(i, e). i \<noteq> k) c"
  by (induction c) (auto simp: updateDoc_def)

lemma settlePayment_expenses:
  "expense_cores (snd (settlePayment cu eid s)) = expense_cores s"
  "other_expenses eid (snd (settlePayment cu eid s)) = other_expenses eid s"
  by (simp_all add: settlePayment_def Let_def expense_cores_def other_expenses_def
        expense_cores_updateDoc other_updateDoc split: option.splits)

lemma loadGroupMembers_expenses: "expenses (snd (loadGroupMembers gid s)) = expenses s"
  by (simp add: loadGroupMembers_db)

lemma createGroup_expenses:
  "expenses (snd (createGroup cu name description membersInput now s)) = expenses s"
  by (simp add: createGroup_def Let_def addDoc_groups_def split: prod.splits)

lemma addExpense_expenses: "\<exists>new. expenses (snd (addExpense f now s)) = expenses s @ new"
  by (simp add: addExpense_def Let_def awardXP_frame calculateSettlements_frame
        addDoc_expenses_def split: prod.splits)

lemma deleteGroup_expenses_kept:
  "\<exists>keep. expenses (snd (deleteGroup confirmed cu gid rejected groupRejected s))
            = filter keep (expenses s)"
proof -
  let ?r = "deleteGroup confirmed cu gid rejected groupRejected s"
  let ?s1 = "deleteGroup_expenses rejected gid s"
  have k: "\<exists>keep. expenses ?s1 = filter keep (expenses s)"
    unfolding expenses_deleteGroup_expenses by blast
  consider "expenses (snd ?r) = expenses ?s1" | "expenses (snd ?r) = filter (\<lambda>x. True) (expenses s)"
    using deleteGroup_cases [of confirmed cu gid rejected groupRejected s] by auto
  then show ?thesis
    using k by cases (simp, blast)
qed

text \<open>
  C7, as the code has it. \<^verbatim>\<open>settlePayment\<close> rewrites the \<^verbatim>\<open>settlementStatus\<close> field of
  the expense it is called on and nothing else: with that field blanked the stored expenses
  are what they were, and every other expense document is untouched. The payment callback,
  the dashboard's \<^verbatim>\<open>settlePayment\<close>, \<^verbatim>\<open>calculateSettlements\<close>,
  \<^verbatim>\<open>loadGroupMembers\<close> and \<^verbatim>\<open>createGroup\<close> leave the expenses collection as it is;
  \<^verbatim>\<open>addExpense\<close> only appends to it, and \<^verbatim>\<open>deleteGroup\<close> only removes documents from it.
\<close>

theorem expense_fields_preserved:
  "expense_cores (snd (settlePayment cu eid s)) = expense_cores s \<and>
   other_expenses eid (snd (settlePayment cu eid s)) = other_expenses eid s \<and>
   expenses (snd (handlePaymentSuccess caller pid sid now s)) = expenses s \<and>
   expenses (snd (settlePayment_dashboard confirmed u pid sid now s)) = expenses s \<and>
   expenses (calculateSettlements groupId eid' ex now s) = expenses s \<and>
   expenses (snd (loadGroupMembers groupId s)) = expenses s \<and>
   expenses (snd (createGroup u name description membersInput now s)) = expenses s \<and>
   (\<exists>new. expenses (snd (addExpense f now s)) = expenses s @ new) \<and>
   (\<exists>keep. expenses (snd (deleteGroup confirmed u groupId rejected groupRejected s))
             = filter keep (expenses s))"
  using addExpense_expenses [of f now s]
        deleteGroup_expenses_kept [of confirmed u groupId rejected groupRejected s]
  by (simp add: settlePayment_expenses handlePaymentSuccess_expenses calculateSettlements_frame
        loadGroupMembers_expenses createGroup_expenses
        settlePayment_dashboard_def initiatePayment_def split: option.splits)

text \<open>
  Counterexample to C7 as stated: on the example, \<open>M1\<close> settling expense 1 changes the
  stored expense document, whose \<^verbatim>\<open>settlementStatus\<close> goes from absent to the map with
  \<open>M1\<close> paid.
\<close>

theorem expense_mutated_counterexample:
  "map_option e_settlementStatus (getDoc (expenses demo_db1) 1) = Some None \<and>
   fst (settlePayment (Some ''M1'') 1 demo_db1) = Inr () \<and>
   map_option e_settlementStatus (getDoc (expenses (snd (settlePayment (Some ''M1'') 1 demo_db1))) 1)
     = Some (Some [(''M1'', Paid)])"
  by (simp add: settlePayment_def Let_def getDoc_updateDoc demo_db1_expenses getDoc_Cons
        getDoc_Nil demo_expense_def)

end
